theory Spec2Isabelle
  imports Main "HOL-Library.Word"
begin

section \<open>SQL values and three-valued logic\<close>

text \<open>
  A \<^verbatim>\<open>uuid\<close> is modelled by its canonical text form, so that the cast
  \<^verbatim>\<open>id::text\<close> of the storage policy is the identity. A nullable column is an
  \<open>option\<close>, \<open>None\<close> being SQL's NULL. A policy expression evaluates to
  true, false or NULL; a row passes a policy only when the expression is true.
\<close>

type_synonym uuid = string
type_synonym timestamptz = nat

text \<open>
  A username is typed into the settings page, compared and changed there, and stored as
  it is sent. It is kept in the form the component holds it, a JavaScript string: a
  sequence of UTF-16 code units.
\<close>

type_synonym code_unit = "16 word"
type_synonym js_string = "code_unit list"
type_synonym sqlbool = "bool option"

definition sql_and :: "sqlbool \<Rightarrow> sqlbool \<Rightarrow> sqlbool" where
  "sql_and a b =
     (if a = Some False \<or> b = Some False then Some False
      else if a = None \<or> b = None then None
      else Some True)"

definition sql_or :: "sqlbool \<Rightarrow> sqlbool \<Rightarrow> sqlbool" where
  "sql_or a b =
     (if a = Some True \<or> b = Some True then Some True
      else if a = None \<or> b = None then None
      else Some False)"

definition sql_eq :: "'a option \<Rightarrow> 'a option \<Rightarrow> sqlbool" where
  "sql_eq a b = (case (a, b) of (Some x, Some y) \<Rightarrow> Some (x = y) | _ \<Rightarrow> None)"

definition sql_ne :: "'a option \<Rightarrow> 'a option \<Rightarrow> sqlbool" where
  "sql_ne a b = (case (a, b) of (Some x, Some y) \<Rightarrow> Some (x \<noteq> y) | _ \<Rightarrow> None)"

definition sql_is_null :: "'a option \<Rightarrow> sqlbool" where
  "sql_is_null a = Some (a = None)"

definition sql_is_not_null :: "'a option \<Rightarrow> sqlbool" where
  "sql_is_not_null a = Some (a \<noteq> None)"

definition sql_true :: sqlbool where
  "sql_true = Some True"

text \<open>\<^verbatim>\<open>SELECT ... FROM t WHERE e\<close> keeps the rows on which \<open>e\<close> is true;
  \<^verbatim>\<open>EXISTS (...)\<close> is never NULL.\<close>

definition sql_where :: "('r \<Rightarrow> sqlbool) \<Rightarrow> 'r list \<Rightarrow> 'r list" where
  "sql_where e rows = filter (\<lambda>r. e r = Some True) rows"

definition sql_exists :: "'r list \<Rightarrow> sqlbool" where
  "sql_exists rows = Some (rows \<noteq> [])"

section \<open>The schema of database_structure.sql\<close>

text \<open>
  One record per table. Column names are prefixed by the table (the SQL names
  \<^verbatim>\<open>id\<close>, \<^verbatim>\<open>user_id\<close>, \<^verbatim>\<open>group_id\<close>, \<^verbatim>\<open>created_at\<close> occur in several tables).
  A column declared \<^verbatim>\<open>NOT NULL\<close> or part of a primary key has a plain type, every
  other column is an \<open>option\<close>.
\<close>

record profiles_row =
  pr_id :: uuid
  pr_username :: js_string
  pr_display_name :: string
  pr_bio :: "string option"
  pr_avatar_url :: "string option"
  pr_banner_url :: "string option"
  pr_verified :: "bool option"
  pr_created_at :: "timestamptz option"
  pr_theme :: "string option"
  pr_verification_request :: "string option"
  pr_last_seen :: "timestamptz option"

record posts_row =
  po_id :: uuid
  po_user_id :: uuid
  po_content :: string
  po_media_url :: "string option"
  po_media_type :: "string option"
  po_created_at :: "timestamptz option"

record follows_row =
  fo_follower_id :: uuid
  fo_following_id :: uuid
  fo_created_at :: "timestamptz option"

record messages_row =
  ms_id :: uuid
  ms_sender_id :: uuid
  ms_recipient_id :: uuid
  ms_content :: string
  ms_media_url :: "string option"
  ms_media_type :: "string option"
  ms_read :: "bool option"
  ms_created_at :: "timestamptz option"
  ms_reply_to_id :: "uuid option"
  ms_group_id :: "uuid option"

record groups_row =
  gr_id :: uuid
  gr_name :: string
  gr_creator_id :: "uuid option"
  gr_created_at :: "timestamptz option"
  gr_avatar_url :: "string option"
  gr_banner_url :: "string option"

record group_members_row =
  gm_group_id :: uuid
  gm_user_id :: uuid
  gm_joined_at :: "timestamptz option"
  gm_is_admin :: "bool option"

text \<open>A row of \<^verbatim>\<open>storage.objects\<close>: the bucket and the object key.\<close>

record storage_object =
  ob_bucket_id :: string
  ob_name :: string

record database =
  auth_users :: "uuid list"
  profiles :: "profiles_row list"
  posts :: "posts_row list"
  follows :: "follows_row list"
  messages :: "messages_row list"
  groups :: "groups_row list"
  group_members :: "group_members_row list"
  storage_objects :: "storage_object list"

section \<open>Callers, roles and row-level security\<close>

text \<open>
  A client request runs under the role \<^verbatim>\<open>anon\<close> or \<^verbatim>\<open>authenticated\<close>;
  \<^verbatim>\<open>auth.uid()\<close> is NULL for the former and the caller's identity for the latter.
\<close>

datatype caller = Anon | Authenticated uuid

fun auth_uid :: "caller \<Rightarrow> uuid option" where
  "auth_uid Anon = None"
| "auth_uid (Authenticated u) = Some u"

datatype command = SELECT | INSERT | UPDATE | DELETE

text \<open>\<^verbatim>\<open>TO authenticated\<close>, or no \<^verbatim>\<open>TO\<close> clause (every role).\<close>

datatype policy_target = TO_public | TO_authenticated

record 'r policy =
  policy_name :: string
  policy_cmd :: command
  policy_to :: policy_target
  policy_using :: "(caller \<Rightarrow> database \<Rightarrow> 'r \<Rightarrow> sqlbool) option"
  policy_check :: "(caller \<Rightarrow> database \<Rightarrow> 'r \<Rightarrow> sqlbool) option"

definition policy_applies :: "'r policy \<Rightarrow> command \<Rightarrow> caller \<Rightarrow> bool" where
  "policy_applies p c who =
     (policy_cmd p = c \<and> (policy_to p = TO_public \<or> who \<noteq> Anon))"

text \<open>
  Row-level security is enabled on every table (lines 70 to 75), and all policies are
  permissive: a row passes when some policy for the command and the caller's role holds
  on it; with no such policy the row is refused.
\<close>

definition passes_using :: "'r policy list \<Rightarrow> command \<Rightarrow> caller \<Rightarrow> database \<Rightarrow> 'r \<Rightarrow> bool" where
  "passes_using ps c who db r =
     list_ex (\<lambda>p. policy_applies p c who \<and>
                  (case policy_using p of None \<Rightarrow> False | Some e \<Rightarrow> e who db r = Some True)) ps"

definition passes_check :: "'r policy list \<Rightarrow> command \<Rightarrow> caller \<Rightarrow> database \<Rightarrow> 'r \<Rightarrow> bool" where
  "passes_check ps c who db r =
     list_ex (\<lambda>p. policy_applies p c who \<and>
                  (case policy_check p of None \<Rightarrow> False | Some e \<Rightarrow> e who db r = Some True)) ps"

text \<open>
  An UPDATE changes a row when the existing row passes the USING expression of an UPDATE
  policy and the new row passes a WITH CHECK expression; a DELETE removes a row that
  passes the USING expression of a DELETE policy. When the statement reads columns of the
  table (a WHERE or RETURNING clause), the rows have to pass the SELECT policies too.
\<close>

definition update_permitted ::
    "'r policy list \<Rightarrow> bool \<Rightarrow> caller \<Rightarrow> database \<Rightarrow> 'r \<Rightarrow> 'r \<Rightarrow> bool" where
  "update_permitted ps reads who db old new =
     (passes_using ps UPDATE who db old \<and> passes_check ps UPDATE who db new \<and>
      (if reads then passes_using ps SELECT who db old \<and> passes_using ps SELECT who db new
       else True))"

definition delete_permitted ::
    "'r policy list \<Rightarrow> bool \<Rightarrow> caller \<Rightarrow> database \<Rightarrow> 'r \<Rightarrow> bool" where
  "delete_permitted ps reads who db old =
     (passes_using ps DELETE who db old \<and>
      (if reads then passes_using ps SELECT who db old else True))"

section \<open>Policies for group_members and groups\<close>

text \<open>Line 119: the SELECT policy of \<^verbatim>\<open>group_members\<close>.\<close>

definition members_viewable_by_self :: "group_members_row policy" where
  "members_viewable_by_self =
     \<lparr> policy_name = ''Members viewable by self'',
       policy_cmd = SELECT,
       policy_to = TO_authenticated,
       policy_using = Some (\<lambda>who db gm. sql_eq (Some (gm_user_id gm)) (auth_uid who)),
       policy_check = None \<rparr>"

text \<open>
  What a \<^verbatim>\<open>SELECT ... FROM group_members\<close> of the caller ranges over. The subqueries
  of the other policies read the table through this filter, as the policy expressions run
  with the caller's rights.
\<close>

definition select_group_members :: "caller \<Rightarrow> database \<Rightarrow> group_members_row list" where
  "select_group_members who db =
     filter (passes_using [members_viewable_by_self] SELECT who db) (group_members db)"

text \<open>\<^verbatim>\<open>EXISTS (SELECT 1 FROM group_members WHERE group_id = g AND user_id = auth.uid())\<close>\<close>

definition is_member :: "caller \<Rightarrow> database \<Rightarrow> uuid option \<Rightarrow> sqlbool" where
  "is_member who db g =
     sql_exists (sql_where
       (\<lambda>gm. sql_and (sql_eq (Some (gm_group_id gm)) g)
                      (sql_eq (Some (gm_user_id gm)) (auth_uid who)))
       (select_group_members who db))"

text \<open>\<^verbatim>\<open>EXISTS (SELECT 1 FROM group_members gm WHERE gm.group_id = g
  AND gm.user_id = auth.uid() AND gm.is_admin = true)\<close>\<close>

definition is_admin_member :: "caller \<Rightarrow> database \<Rightarrow> uuid option \<Rightarrow> sqlbool" where
  "is_admin_member who db g =
     sql_exists (sql_where
       (\<lambda>gm. sql_and (sql_and (sql_eq (Some (gm_group_id gm)) g)
                               (sql_eq (Some (gm_user_id gm)) (auth_uid who)))
                      (sql_eq (gm_is_admin gm) (Some True)))
       (select_group_members who db))"

text \<open>Lines 101 to 115: the policies of \<^verbatim>\<open>groups\<close>.\<close>

definition groups_viewable_by_members :: "groups_row policy" where
  "groups_viewable_by_members =
     \<lparr> policy_name = ''Groups viewable by members'',
       policy_cmd = SELECT,
       policy_to = TO_authenticated,
       policy_using = Some (\<lambda>who db g.
         sql_or (sql_eq (gr_creator_id g) (auth_uid who))
                (is_member who db (Some (gr_id g)))),
       policy_check = None \<rparr>"

definition creators_can_create_groups :: "groups_row policy" where
  "creators_can_create_groups =
     \<lparr> policy_name = ''Creators can create groups'',
       policy_cmd = INSERT,
       policy_to = TO_public,
       policy_using = None,
       policy_check = Some (\<lambda>who db g. sql_eq (auth_uid who) (gr_creator_id g)) \<rparr>"

definition admins_and_creators_can_update_groups :: "groups_row policy" where
  "admins_and_creators_can_update_groups =
     \<lparr> policy_name = ''Admins and creators can update groups'',
       policy_cmd = UPDATE,
       policy_to = TO_public,
       policy_using = Some (\<lambda>who db g.
         sql_or (sql_eq (auth_uid who) (gr_creator_id g))
                (is_admin_member who db (Some (gr_id g)))),
       policy_check = Some (\<lambda>who db g.
         sql_or (sql_eq (auth_uid who) (gr_creator_id g))
                (is_admin_member who db (Some (gr_id g)))) \<rparr>"

definition admins_and_creators_can_delete_groups :: "groups_row policy" where
  "admins_and_creators_can_delete_groups =
     \<lparr> policy_name = ''Admins and creators can delete groups'',
       policy_cmd = DELETE,
       policy_to = TO_public,
       policy_using = Some (\<lambda>who db g.
         sql_or (sql_eq (auth_uid who) (gr_creator_id g))
                (is_admin_member who db (Some (gr_id g)))),
       policy_check = None \<rparr>"

definition groups_policies :: "groups_row policy list" where
  "groups_policies =
     [groups_viewable_by_members, creators_can_create_groups,
      admins_and_creators_can_update_groups, admins_and_creators_can_delete_groups]"

definition select_groups :: "caller \<Rightarrow> database \<Rightarrow> groups_row list" where
  "select_groups who db = filter (passes_using groups_policies SELECT who db) (groups db)"

text \<open>\<^verbatim>\<open>EXISTS (SELECT 1 FROM groups WHERE id = g AND creator_id = auth.uid())\<close>\<close>

definition is_creator :: "caller \<Rightarrow> database \<Rightarrow> uuid option \<Rightarrow> sqlbool" where
  "is_creator who db g =
     sql_exists (sql_where
       (\<lambda>gr. sql_and (sql_eq (Some (gr_id gr)) g)
                      (sql_eq (gr_creator_id gr) (auth_uid who)))
       (select_groups who db))"

text \<open>Lines 123 to 127: the write policies of \<^verbatim>\<open>group_members\<close>.\<close>

definition admins_and_creators_can_insert_members :: "group_members_row policy" where
  "admins_and_creators_can_insert_members =
     \<lparr> policy_name = ''Admins and creators can insert members'',
       policy_cmd = INSERT,
       policy_to = TO_authenticated,
       policy_using = None,
       policy_check = Some (\<lambda>who db gm.
         sql_or (is_creator who db (Some (gm_group_id gm)))
                (is_admin_member who db (Some (gm_group_id gm)))) \<rparr>"

definition admins_and_creators_can_update_member_roles :: "group_members_row policy" where
  "admins_and_creators_can_update_member_roles =
     \<lparr> policy_name = ''Admins and creators can update member roles'',
       policy_cmd = UPDATE,
       policy_to = TO_public,
       policy_using = Some (\<lambda>who db gm.
         sql_and (sql_or (is_creator who db (Some (gm_group_id gm)))
                         (is_admin_member who db (Some (gm_group_id gm))))
                 (sql_ne (auth_uid who) (Some (gm_user_id gm)))),
       policy_check = Some (\<lambda>who db gm. sql_true) \<rparr>"

definition admins_creators_and_member_can_delete_members :: "group_members_row policy" where
  "admins_creators_and_member_can_delete_members =
     \<lparr> policy_name = ''Admins, creators, and member can delete members'',
       policy_cmd = DELETE,
       policy_to = TO_public,
       policy_using = Some (\<lambda>who db gm.
         sql_or (sql_or (sql_eq (auth_uid who) (Some (gm_user_id gm)))
                        (is_creator who db (Some (gm_group_id gm))))
                (is_admin_member who db (Some (gm_group_id gm)))),
       policy_check = None \<rparr>"

definition group_members_policies :: "group_members_row policy list" where
  "group_members_policies =
     [members_viewable_by_self, admins_and_creators_can_insert_members,
      admins_and_creators_can_update_member_roles,
      admins_creators_and_member_can_delete_members]"

section \<open>Policies for messages\<close>

text \<open>Lines 93 to 97.\<close>

definition users_can_view_dms :: "messages_row policy" where
  "users_can_view_dms =
     \<lparr> policy_name = ''Users can view DMs'',
       policy_cmd = SELECT,
       policy_to = TO_authenticated,
       policy_using = Some (\<lambda>who db m.
         sql_and (sql_or (sql_eq (auth_uid who) (Some (ms_sender_id m)))
                         (sql_eq (auth_uid who) (Some (ms_recipient_id m))))
                 (sql_is_null (ms_group_id m))),
       policy_check = None \<rparr>"

definition users_can_view_group_messages :: "messages_row policy" where
  "users_can_view_group_messages =
     \<lparr> policy_name = ''Users can view group messages'',
       policy_cmd = SELECT,
       policy_to = TO_authenticated,
       policy_using = Some (\<lambda>who db m.
         sql_and (sql_is_not_null (ms_group_id m)) (is_member who db (ms_group_id m))),
       policy_check = None \<rparr>"

definition users_can_send_dms :: "messages_row policy" where
  "users_can_send_dms =
     \<lparr> policy_name = ''Users can send DMs'',
       policy_cmd = INSERT,
       policy_to = TO_authenticated,
       policy_using = None,
       policy_check = Some (\<lambda>who db m.
         sql_and (sql_eq (auth_uid who) (Some (ms_sender_id m)))
                 (sql_is_null (ms_group_id m))) \<rparr>"

definition users_can_send_group_messages :: "messages_row policy" where
  "users_can_send_group_messages =
     \<lparr> policy_name = ''Users can send group messages'',
       policy_cmd = INSERT,
       policy_to = TO_authenticated,
       policy_using = None,
       policy_check = Some (\<lambda>who db m.
         sql_and (sql_and (sql_is_not_null (ms_group_id m))
                          (sql_eq (auth_uid who) (Some (ms_sender_id m))))
                 (is_member who db (ms_group_id m))) \<rparr>"

definition users_can_mark_dms_as_read :: "messages_row policy" where
  "users_can_mark_dms_as_read =
     \<lparr> policy_name = ''Users can mark DMs as read'',
       policy_cmd = UPDATE,
       policy_to = TO_authenticated,
       policy_using = Some (\<lambda>who db m.
         sql_and (sql_eq (auth_uid who) (Some (ms_recipient_id m)))
                 (sql_is_null (ms_group_id m))),
       policy_check = Some (\<lambda>who db m. sql_eq (auth_uid who) (Some (ms_recipient_id m))) \<rparr>"

definition messages_policies :: "messages_row policy list" where
  "messages_policies =
     [users_can_view_dms, users_can_view_group_messages, users_can_send_dms,
      users_can_send_group_messages, users_can_mark_dms_as_read]"

definition select_messages :: "caller \<Rightarrow> database \<Rightarrow> messages_row list" where
  "select_messages who db = filter (passes_using messages_policies SELECT who db) (messages db)"

section \<open>Policies for profiles\<close>

text \<open>Lines 78 to 80.\<close>

definition public_profiles_are_viewable_by_everyone :: "profiles_row policy" where
  "public_profiles_are_viewable_by_everyone =
     \<lparr> policy_name = ''Public profiles are viewable by everyone'',
       policy_cmd = SELECT,
       policy_to = TO_public,
       policy_using = Some (\<lambda>who db p. sql_true),
       policy_check = None \<rparr>"

definition users_can_update_own_profile :: "profiles_row policy" where
  "users_can_update_own_profile =
     \<lparr> policy_name = ''Users can update own profile'',
       policy_cmd = UPDATE,
       policy_to = TO_authenticated,
       policy_using = Some (\<lambda>who db p. sql_eq (auth_uid who) (Some (pr_id p))),
       policy_check = Some (\<lambda>who db p. sql_eq (auth_uid who) (Some (pr_id p))) \<rparr>"

definition users_can_insert_own_profile :: "profiles_row policy" where
  "users_can_insert_own_profile =
     \<lparr> policy_name = ''Users can insert own profile'',
       policy_cmd = INSERT,
       policy_to = TO_authenticated,
       policy_using = None,
       policy_check = Some (\<lambda>who db p. sql_eq (auth_uid who) (Some (pr_id p))) \<rparr>"

definition profiles_policies :: "profiles_row policy list" where
  "profiles_policies =
     [public_profiles_are_viewable_by_everyone, users_can_update_own_profile,
      users_can_insert_own_profile]"

definition select_profiles :: "caller \<Rightarrow> database \<Rightarrow> profiles_row list" where
  "select_profiles who db = filter (passes_using profiles_policies SELECT who db) (profiles db)"

section \<open>The media bucket\<close>

text \<open>
  \<^verbatim>\<open>string_to_array(name, '/')\<close>: the pieces between the separators; the empty string
  gives the empty array.
\<close>

fun split_on :: "char \<Rightarrow> string \<Rightarrow> string list" where
  "split_on d [] = [[]]"
| "split_on d (c # cs) =
     (if c = d then [] # split_on d cs
      else (case split_on d cs of [] \<Rightarrow> [[c]] | w # ws \<Rightarrow> (c # w) # ws))"

definition string_to_array :: "string \<Rightarrow> char \<Rightarrow> string list" where
  "string_to_array s d = (if s = [] then [] else split_on d s)"

text \<open>
  \<^verbatim>\<open>storage.foldername\<close> belongs to the storage schema of the backend, not to this
  repository. There it is \<^verbatim>\<open>_parts := string_to_array(name, '/');
  return _parts[1:array_length(_parts,1)-1]\<close>: the segments of the key without the last
  one, which is the file name.
\<close>

definition foldername :: "string \<Rightarrow> string list" where
  "foldername name = butlast (string_to_array name (CHR ''/''))"

text \<open>An array subscript counts from 1 and is NULL out of range.\<close>

definition sql_subscript :: "'a list \<Rightarrow> nat \<Rightarrow> 'a option" where
  "sql_subscript xs i = (if 1 \<le> i \<and> i \<le> length xs then Some (xs ! (i - 1)) else None)"

text \<open>
  A scalar subquery is NULL on no row and the value on one row. On several rows the
  statement fails, which refuses the row as NULL does.
\<close>

definition sql_scalar :: "'a list \<Rightarrow> 'a option" where
  "sql_scalar rows = (case rows of [x] \<Rightarrow> Some x | _ \<Rightarrow> None)"

text \<open>
  Lines 131 to 133. Row-level security on \<^verbatim>\<open>storage.objects\<close> is switched on by the
  storage schema of the backend, so the three policies are all a client has.
\<close>

definition anyone_can_view_media :: "storage_object policy" where
  "anyone_can_view_media =
     \<lparr> policy_name = ''Anyone can view media'',
       policy_cmd = SELECT,
       policy_to = TO_public,
       policy_using = Some (\<lambda>who db ob. sql_eq (Some (ob_bucket_id ob)) (Some ''media'')),
       policy_check = None \<rparr>"

definition users_can_upload :: "storage_object policy" where
  "users_can_upload =
     \<lparr> policy_name = ''Users can upload'',
       policy_cmd = INSERT,
       policy_to = TO_authenticated,
       policy_using = None,
       policy_check = Some (\<lambda>who db ob. sql_eq (Some (ob_bucket_id ob)) (Some ''media'')) \<rparr>"

definition users_can_delete_own :: "storage_object policy" where
  "users_can_delete_own =
     \<lparr> policy_name = ''Users can delete own'',
       policy_cmd = DELETE,
       policy_to = TO_authenticated,
       policy_using = Some (\<lambda>who db ob.
         sql_and (sql_eq (Some (ob_bucket_id ob)) (Some ''media''))
                 (sql_eq (sql_subscript (foldername (ob_name ob)) 1)
                         (sql_scalar (sql_where (\<lambda>u. sql_eq (Some u) (auth_uid who))
                                                (auth_users db))))),
       policy_check = None \<rparr>"

definition storage_objects_policies :: "storage_object policy list" where
  "storage_objects_policies = [anyone_can_view_media, users_can_upload, users_can_delete_own]"

text \<open>The first path segment of an object key, as the specification words it.\<close>

definition first_path_segment :: "string \<Rightarrow> string" where
  "first_path_segment name = takeWhile (\<lambda>c. c \<noteq> CHR ''/'') name"

section \<open>Referential actions\<close>

text \<open>
  \<^verbatim>\<open>ON DELETE CASCADE\<close> removes the rows whose foreign key names a deleted row;
  \<^verbatim>\<open>ON DELETE SET NULL\<close> keeps them and clears the column. A NULL foreign key
  references nothing.
\<close>

definition on_delete_cascade :: "('r \<Rightarrow> uuid option) \<Rightarrow> uuid list \<Rightarrow> 'r list \<Rightarrow> 'r list" where
  "on_delete_cascade fk gone rows =
     filter (\<lambda>r. case fk r of None \<Rightarrow> True | Some k \<Rightarrow> k \<notin> set gone) rows"

definition on_delete_set_null ::
    "('r \<Rightarrow> uuid option) \<Rightarrow> ('r \<Rightarrow> 'r) \<Rightarrow> uuid list \<Rightarrow> 'r list \<Rightarrow> 'r list" where
  "on_delete_set_null fk clear gone rows =
     map (\<lambda>r. case fk r of None \<Rightarrow> r | Some k \<Rightarrow> if k \<in> set gone then clear r else r) rows"

text \<open>
  \<^verbatim>\<open>DELETE FROM profiles WHERE id = pid\<close> with the actions of lines 21, 30, 31, 39,
  40, 46, 54 and 63. The messages that go with the profile are themselves referenced by
  \<^verbatim>\<open>reply_to_id\<close>, which is cleared in the messages that stay. No group is deleted, so
  the cascades of lines 47 and 62 do not fire.
\<close>

definition delete_profile :: "uuid \<Rightarrow> database \<Rightarrow> database" where
  "delete_profile pid db =
     (if pid \<notin> set (map pr_id (profiles db)) then db
      else
        let gone = [pid];
            kept_messages =
              on_delete_cascade (\<lambda>m. Some (ms_recipient_id m)) gone
                (on_delete_cascade (\<lambda>m. Some (ms_sender_id m)) gone (messages db));
            gone_messages =
              filter (\<lambda>i. i \<notin> set (map ms_id kept_messages)) (map ms_id (messages db))
        in db \<lparr> profiles := filter (\<lambda>p. pr_id p \<noteq> pid) (profiles db),
                posts := on_delete_cascade (\<lambda>p. Some (po_user_id p)) gone (posts db),
                follows :=
                  on_delete_cascade (\<lambda>f. Some (fo_following_id f)) gone
                    (on_delete_cascade (\<lambda>f. Some (fo_follower_id f)) gone (follows db)),
                messages :=
                  on_delete_set_null ms_reply_to_id (\<lambda>m. m\<lparr>ms_reply_to_id := None\<rparr>)
                    gone_messages kept_messages,
                groups :=
                  on_delete_set_null gr_creator_id (\<lambda>g. g\<lparr>gr_creator_id := None\<rparr>)
                    gone (groups db),
                group_members :=
                  on_delete_cascade (\<lambda>gm. Some (gm_user_id gm)) gone (group_members db) \<rparr>)"

text \<open>
  \<^verbatim>\<open>DELETE FROM groups WHERE id = gid\<close> sent by a client: the rows with that id that the
  caller may select and delete (lines 101 to 109 and 115) go, with the actions of lines 47
  and 62, and that of line 46 for the messages that go with the group.
\<close>

definition delete_groups_eq_id :: "caller \<Rightarrow> database \<Rightarrow> uuid \<Rightarrow> database" where
  "delete_groups_eq_id who db gid =
     (let goes = (\<lambda>g. gr_id g = gid \<and> delete_permitted groups_policies True who db g)
      in if \<not> list_ex goes (groups db) then db
         else
           let gone = [gid];
               kept_messages = on_delete_cascade ms_group_id gone (messages db);
               gone_messages =
                 filter (\<lambda>i. i \<notin> set (map ms_id kept_messages)) (map ms_id (messages db))
           in db \<lparr> groups := filter (\<lambda>g. \<not> goes g) (groups db),
                   messages :=
                     on_delete_set_null ms_reply_to_id (\<lambda>m. m\<lparr>ms_reply_to_id := None\<rparr>)
                       gone_messages kept_messages,
                   group_members :=
                     on_delete_cascade (\<lambda>gm. Some (gm_group_id gm)) gone (group_members db) \<rparr>)"

section \<open>The settings workflow of Settings.tsx\<close>

subsection \<open>Strings\<close>

text \<open>
  \<^verbatim>\<open>String.prototype.trim\<close> strips the white space and the line terminators of
  ECMAScript from both ends: TAB, VT, FF, SP, NBSP, the byte order mark U+FEFF and the
  other space separators of Unicode (U+1680, U+2000 to U+200A, U+202F, U+205F, U+3000),
  and LF, CR, U+2028, U+2029. All of them are single code units.
\<close>

definition is_white_space :: "code_unit \<Rightarrow> bool" where
  "is_white_space c =
     (c \<in> set [0x0009, 0x000A, 0x000B, 0x000C, 0x000D, 0x0020, 0x00A0, 0x1680,
                0x2028, 0x2029, 0x202F, 0x205F, 0x3000, 0xFEFF]
      \<or> (0x2000 \<le> c \<and> c \<le> 0x200A))"

definition trim :: "js_string \<Rightarrow> js_string" where
  "trim s = rev (dropWhile is_white_space (rev (dropWhile is_white_space s)))"

text \<open>
  \<^verbatim>\<open>String.prototype.toLowerCase\<close> is a built-in of the language that applies the case
  tables of Unicode; they are no part of the source. The handler takes the function as
  its first argument \<open>toLowerCase\<close>, and what is proved of the handler holds for
  every such function, the built-in among them.
\<close>

subsection \<open>The backend requests of the handler\<close>

datatype pg_error = unique_violation | rls_violation

text \<open>\<^verbatim>\<open>maybeSingle()\<close>: the row when exactly one row matches, else \<^verbatim>\<open>null\<close>
  (with an error, which the handler does not read, when several rows match).\<close>

definition maybeSingle :: "'a list \<Rightarrow> 'a option" where
  "maybeSingle rows = (case rows of [x] \<Rightarrow> Some x | _ \<Rightarrow> None)"

text \<open>\<^verbatim>\<open>from('profiles').select('id').eq('username', v)\<close>\<close>

definition select_id_eq_username :: "caller \<Rightarrow> database \<Rightarrow> js_string \<Rightarrow> uuid list" where
  "select_id_eq_username who db v =
     map pr_id (sql_where (\<lambda>p. sql_eq (Some (pr_username p)) (Some v)) (select_profiles who db))"

text \<open>
  \<^verbatim>\<open>from('profiles').update({ username: v }).eq('id', i)\<close>: the statement touches the
  rows with that id that the caller may select and update; each new row has to pass the
  WITH CHECK expression, and the table has to keep \<^verbatim>\<open>username\<close> UNIQUE (line 6).
  The table satisfies the constraint before the statement, so the constraint fails
  exactly when the table has a duplicate after it. A statement that fails changes
  nothing; one that matches no row succeeds.
\<close>

definition update_username_eq_id ::
    "caller \<Rightarrow> database \<Rightarrow> js_string \<Rightarrow> uuid \<Rightarrow> pg_error option \<times> database" where
  "update_username_eq_id who db v i =
     (let touched = (\<lambda>p. pr_id p = i \<and> passes_using profiles_policies SELECT who db p
                                   \<and> passes_using profiles_policies UPDATE who db p);
          rows = map (\<lambda>p. if touched p then p\<lparr>pr_username := v\<rparr> else p) (profiles db)
      in if \<not> list_ex touched (profiles db) then (None, db)
         else if list_ex (\<lambda>p. touched p \<and>
                    \<not> passes_check profiles_policies UPDATE who db (p\<lparr>pr_username := v\<rparr>))
                  (profiles db)
           then (Some rls_violation, db)
         else if \<not> distinct (map pr_username rows) then (Some unique_violation, db)
         else (None, db\<lparr>profiles := rows\<rparr>))"

datatype request = Select_id_eq_username js_string | Update_username_eq_id js_string uuid

subsection \<open>The component\<close>

datatype message_type = success | error

record status_message =
  msg_type :: message_type
  msg_text :: string

text \<open>
  The state the handler reads and writes: \<^verbatim>\<open>user?.id\<close> and the cached \<^verbatim>\<open>profile\<close>
  of the auth context, and the component's \<^verbatim>\<open>newUsername\<close>, \<^verbatim>\<open>loading\<close> and
  \<^verbatim>\<open>message\<close>. \<open>timeouts\<close> lists the delays of the pending
  \<^verbatim>\<open>setTimeout(() => setMessage(null), ...)\<close> calls.
\<close>

record settings_state =
  user_id :: "uuid option"
  profile :: "profiles_row option"
  newUsername :: js_string
  loading :: bool
  message :: "status_message option"
  timeouts :: "nat list"

text \<open>
  Modelled from the spec: \<^verbatim>\<open>updateProfile\<close> of the auth context
  (\<^verbatim>\<open>contexts/AuthContext\<close>), which is not among the source files; it replaces the
  in-memory cached profile.
\<close>

definition updateProfile :: "profiles_row \<Rightarrow> settings_state \<Rightarrow> settings_state" where
  "updateProfile p s = s\<lparr>profile := Some p\<rparr>"

text \<open>\<^verbatim>\<open>!user?.id\<close>: no user, or an empty id.\<close>

definition no_user_id :: "uuid option \<Rightarrow> bool" where
  "no_user_id u = (case u of None \<Rightarrow> True | Some i \<Rightarrow> i = [])"

text \<open>
  Lines 41 to 66. The result is the new component state, the new database and the
  requests sent to the backend, in order. The requests run as the signed-in user.
\<close>

definition handleUsernameChange ::
    "(js_string \<Rightarrow> js_string) \<Rightarrow> settings_state \<Rightarrow> database \<Rightarrow>
       settings_state \<times> database \<times> request list" where
  "handleUsernameChange toLowerCase s db =
     (case (user_id s, profile s) of
        (Some uid, Some p) \<Rightarrow>
          if no_user_id (user_id s) \<or> newUsername s = pr_username p \<or> trim (newUsername s) = []
          then (s, db, [])
          else
            let who = Authenticated uid;
                lower = toLowerCase (newUsername s);
                s1 = s\<lparr>loading := True\<rparr>;
                existing = maybeSingle (select_id_eq_username who db lower)
            in if existing \<noteq> None
               then (s1\<lparr>message := Some \<lparr>msg_type = error, msg_text = ''Username already taken.''\<rparr>,
                        loading := False\<rparr>,
                     db, [Select_id_eq_username lower])
               else
                 let (err, db') = update_username_eq_id who db lower uid;
                     s2 = s1\<lparr>loading := False\<rparr>;
                     s3 = (if err = None
                           then (updateProfile (p\<lparr>pr_username := lower\<rparr>) s2)
                                  \<lparr>message := Some \<lparr>msg_type = success, msg_text = ''Username updated!''\<rparr>,
                                   newUsername := []\<rparr>
                           else s2\<lparr>message := Some \<lparr>msg_type = error,
                                                     msg_text = ''Failed to update username.''\<rparr>\<rparr>)
                 in (s3\<lparr>timeouts := timeouts s3 @ [3000]\<rparr>, db',
                     [Select_id_eq_username lower, Update_username_eq_id lower uid])
      | _ \<Rightarrow> (s, db, []))"

section \<open>Example data\<close>

text \<open>
  A small database: alice (\<open>u1\<close>) created group \<open>g1\<close> and administers it, bob
  (\<open>u2\<close>) is a plain member, carol (\<open>u3\<close>) is in no group.
\<close>

text \<open>
  The names of the examples are ASCII, written as literals; \<open>utf16\<close> gives their code
  units. On such a name \<^verbatim>\<open>toLowerCase\<close> turns \<^verbatim>\<open>A\<close> to \<^verbatim>\<open>Z\<close> into \<^verbatim>\<open>a\<close> to
  \<^verbatim>\<open>z\<close> and leaves the rest; \<open>ascii_toLowerCase\<close> does that, and stands for the
  built-in in the examples.
\<close>

definition utf16 :: "string \<Rightarrow> js_string" where
  "utf16 s = map of_char s"

definition ascii_toLowerCase :: "js_string \<Rightarrow> js_string" where
  "ascii_toLowerCase s = map (\<lambda>c. if 0x41 \<le> c \<and> c \<le> 0x5A then c + 0x20 else c) s"

definition example_profile :: "uuid \<Rightarrow> string \<Rightarrow> profiles_row" where
  "example_profile i name =
     \<lparr> pr_id = i, pr_username = utf16 name, pr_display_name = name, pr_bio = Some [],
       pr_avatar_url = Some [], pr_banner_url = Some [], pr_verified = Some False,
       pr_created_at = Some 0, pr_theme = Some ''lt-classic'',
       pr_verification_request = Some [], pr_last_seen = None \<rparr>"

definition example_post :: "uuid \<Rightarrow> uuid \<Rightarrow> posts_row" where
  "example_post i u =
     \<lparr> po_id = i, po_user_id = u, po_content = ''hello'', po_media_url = Some [],
       po_media_type = Some ''image'', po_created_at = Some 1 \<rparr>"

definition example_dm :: messages_row where
  "example_dm =
     \<lparr> ms_id = ''m1'', ms_sender_id = ''u1'', ms_recipient_id = ''u2'', ms_content = ''hi bob'',
       ms_media_url = Some [], ms_media_type = Some ''image'', ms_read = Some False,
       ms_created_at = Some 2, ms_reply_to_id = None, ms_group_id = None \<rparr>"

definition example_group_message :: messages_row where
  "example_group_message =
     \<lparr> ms_id = ''m2'', ms_sender_id = ''u1'', ms_recipient_id = ''u1'', ms_content = ''hi all'',
       ms_media_url = Some [], ms_media_type = Some ''image'', ms_read = Some False,
       ms_created_at = Some 3, ms_reply_to_id = None, ms_group_id = Some ''g1'' \<rparr>"

definition example_reply :: messages_row where
  "example_reply =
     \<lparr> ms_id = ''m3'', ms_sender_id = ''u2'', ms_recipient_id = ''u3'', ms_content = ''fwd'',
       ms_media_url = Some [], ms_media_type = Some ''image'', ms_read = Some False,
       ms_created_at = Some 4, ms_reply_to_id = Some ''m1'', ms_group_id = None \<rparr>"

definition example_group :: groups_row where
  "example_group =
     \<lparr> gr_id = ''g1'', gr_name = ''friends'', gr_creator_id = Some ''u1'',
       gr_created_at = Some 0, gr_avatar_url = Some [], gr_banner_url = Some [] \<rparr>"

definition example_member_alice :: group_members_row where
  "example_member_alice =
     \<lparr> gm_group_id = ''g1'', gm_user_id = ''u1'', gm_joined_at = Some 0,
       gm_is_admin = Some True \<rparr>"

definition example_member_bob :: group_members_row where
  "example_member_bob =
     \<lparr> gm_group_id = ''g1'', gm_user_id = ''u2'', gm_joined_at = Some 1,
       gm_is_admin = Some False \<rparr>"

definition example_db :: database where
  "example_db =
     \<lparr> auth_users = [''u1'', ''u2'', ''u3''],
       profiles = [example_profile ''u1'' ''alice'', example_profile ''u2'' ''bob'',
                   example_profile ''u3'' ''carol''],
       posts = [example_post ''p1'' ''u1'', example_post ''p2'' ''u2''],
       follows = [\<lparr>fo_follower_id = ''u1'', fo_following_id = ''u2'', fo_created_at = Some 0\<rparr>,
                  \<lparr>fo_follower_id = ''u2'', fo_following_id = ''u3'', fo_created_at = Some 0\<rparr>],
       messages = [example_dm, example_group_message, example_reply],
       groups = [example_group],
       group_members = [example_member_alice, example_member_bob],
       storage_objects = [\<lparr>ob_bucket_id = ''media'', ob_name = ''u1/cat.png''\<rparr>,
                          \<lparr>ob_bucket_id = ''media'', ob_name = ''u1''\<rparr>] \<rparr>"

text \<open>Bob's settings page, with a name typed into the username field.\<close>

definition example_settings :: "string \<Rightarrow> settings_state" where
  "example_settings typed =
     \<lparr> user_id = Some ''u2'', profile = Some (example_profile ''u2'' ''bob''),
       newUsername = utf16 typed, loading = False, message = None, timeouts = [] \<rparr>"


section \<open>Properties\<close>

subsection \<open>Three-valued logic and row-level security\<close>

lemma sql_and_True [simp]: "(sql_and a b = Some True) = (a = Some True \<and> b = Some True)"
  by (cases a; cases b) (auto simp: sql_and_def)

lemma sql_or_True [simp]: "(sql_or a b = Some True) = (a = Some True \<or> b = Some True)"
  by (cases a; cases b) (auto simp: sql_or_def)

lemma sql_eq_True [simp]: "(sql_eq a b = Some True) = (\<exists>x. a = Some x \<and> b = Some x)"
  by (cases a; cases b) (auto simp: sql_eq_def)

lemma sql_ne_True [simp]: "(sql_ne a b = Some True) = (\<exists>x y. a = Some x \<and> b = Some y \<and> x \<noteq> y)"
  by (cases a; cases b) (auto simp: sql_ne_def)

lemma sql_is_null_True [simp]: "(sql_is_null a = Some True) = (a = None)"
  by (simp add: sql_is_null_def)

lemma sql_is_not_null_True [simp]: "(sql_is_not_null a = Some True) = (a \<noteq> None)"
  by (simp add: sql_is_not_null_def)

lemma sql_exists_where_True [simp]:
  "(sql_exists (sql_where e rows) = Some True) = (\<exists>r \<in> set rows. e r = Some True)"
  by (auto simp: sql_exists_def sql_where_def filter_empty_conv)

lemma set_select_group_members:
  "set (select_group_members who db) =
     {gm \<in> set (group_members db). auth_uid who = Some (gm_user_id gm)}"
  by (cases who) (auto simp: select_group_members_def passes_using_def policy_applies_def
        members_viewable_by_self_def)

lemma is_member_True:
  "(is_member who db g = Some True) =
     (\<exists>gm \<in> set (group_members db). g = Some (gm_group_id gm) \<and> auth_uid who = Some (gm_user_id gm))"
  by (auto simp: is_member_def set_select_group_members)

lemma is_admin_member_True:
  "(is_admin_member who db g = Some True) =
     (\<exists>gm \<in> set (group_members db). g = Some (gm_group_id gm) \<and>
        auth_uid who = Some (gm_user_id gm) \<and> gm_is_admin gm = Some True)"
  by (auto simp: is_admin_member_def set_select_group_members)

lemma set_select_groups:
  "set (select_groups who db) =
     {g \<in> set (groups db). who \<noteq> Anon \<and>
        (gr_creator_id g = auth_uid who \<and> gr_creator_id g \<noteq> None \<or> is_member who db (Some (gr_id g)) = Some True)}"
  by (auto simp: select_groups_def passes_using_def policy_applies_def groups_policies_def
        groups_viewable_by_members_def creators_can_create_groups_def
        admins_and_creators_can_update_groups_def admins_and_creators_can_delete_groups_def)

lemma is_creator_True:
  "(is_creator who db g = Some True) =
     (\<exists>gr \<in> set (groups db). g = Some (gr_id gr) \<and> who \<noteq> Anon \<and> gr_creator_id gr = auth_uid who)"
  by (cases who) (auto simp: is_creator_def set_select_groups)

lemma messages_select_iff:
  "passes_using messages_policies SELECT who db m =
     (\<exists>a. who = Authenticated a \<and>
        (ms_group_id m = None \<and> (a = ms_sender_id m \<or> a = ms_recipient_id m) \<or>
         (\<exists>gm \<in> set (group_members db). ms_group_id m = Some (gm_group_id gm) \<and> gm_user_id gm = a)))"
  by (cases who) (auto simp: passes_using_def policy_applies_def messages_policies_def
        users_can_view_dms_def users_can_view_group_messages_def users_can_send_dms_def
        users_can_send_group_messages_def users_can_mark_dms_as_read_def is_member_True)


lemma messages_update_using_iff:
  "passes_using messages_policies UPDATE who db m =
     (who = Authenticated (ms_recipient_id m) \<and> ms_group_id m = None)"
  by (cases who) (auto simp: passes_using_def policy_applies_def messages_policies_def
        users_can_view_dms_def users_can_view_group_messages_def users_can_send_dms_def
        users_can_send_group_messages_def users_can_mark_dms_as_read_def)

lemma messages_update_check_iff:
  "passes_check messages_policies UPDATE who db m = (who = Authenticated (ms_recipient_id m))"
  by (cases who) (auto simp: passes_check_def policy_applies_def messages_policies_def
        users_can_view_dms_def users_can_view_group_messages_def users_can_send_dms_def
        users_can_send_group_messages_def users_can_mark_dms_as_read_def)

lemma messages_no_delete: "\<not> passes_using messages_policies DELETE who db m"
  by (simp add: passes_using_def policy_applies_def messages_policies_def
        users_can_view_dms_def users_can_view_group_messages_def users_can_send_dms_def
        users_can_send_group_messages_def users_can_mark_dms_as_read_def)

lemma group_members_select_iff:
  "passes_using group_members_policies SELECT who db gm = (who = Authenticated (gm_user_id gm))"
  by (cases who) (auto simp: passes_using_def policy_applies_def group_members_policies_def
        members_viewable_by_self_def admins_and_creators_can_insert_members_def
        admins_and_creators_can_update_member_roles_def
        admins_creators_and_member_can_delete_members_def)

lemma group_members_update_using_iff:
  "passes_using group_members_policies UPDATE who db gm =
     (\<exists>a. who = Authenticated a \<and> a \<noteq> gm_user_id gm \<and>
        ((\<exists>g \<in> set (groups db). gr_id g = gm_group_id gm \<and> gr_creator_id g = Some a) \<or>
         (\<exists>x \<in> set (group_members db). gm_group_id x = gm_group_id gm \<and> gm_user_id x = a \<and>
             gm_is_admin x = Some True)))"
  by (cases who) (auto simp: passes_using_def policy_applies_def group_members_policies_def
        members_viewable_by_self_def admins_and_creators_can_insert_members_def
        admins_and_creators_can_update_member_roles_def
        admins_creators_and_member_can_delete_members_def is_creator_True is_admin_member_True)

lemma view_dms_alone:
  "passes_using [users_can_view_dms] SELECT who db m =
     (\<exists>a. who = Authenticated a \<and> ms_group_id m = None \<and> (a = ms_sender_id m \<or> a = ms_recipient_id m))"
  by (cases who) (auto simp: passes_using_def policy_applies_def users_can_view_dms_def)

lemma view_group_messages_alone:
  "passes_using [users_can_view_group_messages] SELECT who db m =
     (\<exists>a. who = Authenticated a \<and>
        (\<exists>gm \<in> set (group_members db). ms_group_id m = Some (gm_group_id gm) \<and> gm_user_id gm = a))"
  by (cases who) (auto simp: passes_using_def policy_applies_def users_can_view_group_messages_def
        is_member_True)

lemma members_viewable_by_self_alone:
  "passes_using [members_viewable_by_self] SELECT who db gm = (who = Authenticated (gm_user_id gm))"
  by (cases who) (auto simp: passes_using_def policy_applies_def members_viewable_by_self_def)

text \<open>
  Claim C1. A message row with a non-null \<^verbatim>\<open>group_id\<close> is returned to an authenticated
  caller by a SELECT on \<^verbatim>\<open>messages\<close> if and only if \<^verbatim>\<open>group_members\<close> has a row with
  that group and the caller as \<^verbatim>\<open>user_id\<close>. The sender column has no part in it, and the
  policy for direct messages never admits such a row.
\<close>

theorem group_message_visible_iff_member:
  assumes "m \<in> set (messages db)" and "ms_group_id m = Some g"
  shows "(m \<in> set (select_messages (Authenticated a) db) \<longleftrightarrow>
            (\<exists>gm \<in> set (group_members db). gm_group_id gm = g \<and> gm_user_id gm = a))
       \<and> (\<forall>s. passes_using messages_policies SELECT (Authenticated a) db (m\<lparr>ms_sender_id := s\<rparr>) =
               passes_using messages_policies SELECT (Authenticated a) db m)
       \<and> \<not> passes_using [users_can_view_dms] SELECT (Authenticated a) db m"
proof (intro conjI)
  show "m \<in> set (select_messages (Authenticated a) db) \<longleftrightarrow>
          (\<exists>gm \<in> set (group_members db). gm_group_id gm = g \<and> gm_user_id gm = a)"
    using assms by (auto simp: select_messages_def messages_select_iff)
  show "\<forall>s. passes_using messages_policies SELECT (Authenticated a) db (m\<lparr>ms_sender_id := s\<rparr>) =
            passes_using messages_policies SELECT (Authenticated a) db m"
    using assms by (simp add: messages_select_iff)
  show "\<not> passes_using [users_can_view_dms] SELECT (Authenticated a) db m"
    using assms by (simp add: view_dms_alone)
qed

text \<open>
  Claim C2. A message row with \<^verbatim>\<open>group_id\<close> NULL is returned to an authenticated caller
  if and only if the caller is its \<^verbatim>\<open>sender_id\<close> or its \<^verbatim>\<open>recipient_id\<close>. The policy for
  group messages never admits such a row, and no row at all passes both SELECT policies.
\<close>

theorem direct_message_visible_iff_party:
  assumes "m \<in> set (messages db)" and "ms_group_id m = None"
  shows "(m \<in> set (select_messages (Authenticated a) db) \<longleftrightarrow>
            a = ms_sender_id m \<or> a = ms_recipient_id m)
       \<and> \<not> passes_using [users_can_view_group_messages] SELECT who db m
       \<and> (\<forall>who' db' m'. \<not> (passes_using [users_can_view_dms] SELECT who' db' m' \<and>
                             passes_using [users_can_view_group_messages] SELECT who' db' m'))"
proof (intro conjI)
  show "m \<in> set (select_messages (Authenticated a) db) \<longleftrightarrow>
          a = ms_sender_id m \<or> a = ms_recipient_id m"
    using assms by (auto simp: select_messages_def messages_select_iff)
  show "\<not> passes_using [users_can_view_group_messages] SELECT who db m"
    using assms by (simp add: view_group_messages_alone)
  show "\<forall>who' db' m'. \<not> (passes_using [users_can_view_dms] SELECT who' db' m' \<and>
                          passes_using [users_can_view_group_messages] SELECT who' db' m')"
    by (auto simp: view_dms_alone view_group_messages_alone)
qed

text \<open>
  Claim C3. For an authenticated caller \<open>a\<close> a SELECT on \<^verbatim>\<open>group_members\<close> returns
  exactly the rows whose \<^verbatim>\<open>user_id\<close> is \<open>a\<close>, whatever the caller's role in the group,
  and the decision does not depend on the contents of any table.
\<close>

theorem group_members_select_self_only:
  "filter (passes_using group_members_policies SELECT (Authenticated a) db) (group_members db) =
     filter (\<lambda>gm. gm_user_id gm = a) (group_members db)
   \<and> select_group_members (Authenticated a) db = filter (\<lambda>gm. gm_user_id gm = a) (group_members db)
   \<and> (\<forall>gm \<in> set (group_members db). gm_user_id gm \<noteq> a \<longrightarrow>
         gm \<notin> set (filter (passes_using group_members_policies SELECT (Authenticated a) db) (group_members db)))
   \<and> (\<forall>db' gm. passes_using group_members_policies SELECT (Authenticated a) db' gm =
                 passes_using group_members_policies SELECT (Authenticated a) db gm)"
proof -
  have full: "passes_using group_members_policies SELECT (Authenticated a) d = (\<lambda>gm. gm_user_id gm = a)" for d
    by (rule ext) (auto simp: group_members_select_iff)
  have one: "passes_using [members_viewable_by_self] SELECT (Authenticated a) db = (\<lambda>gm. gm_user_id gm = a)"
    by (rule ext) (auto simp: members_viewable_by_self_alone)
  show ?thesis
    by (simp add: select_group_members_def full one)
qed

text \<open>
  Claim C4. An UPDATE of a \<^verbatim>\<open>group_members\<close> row is refused when the caller is the
  row's \<^verbatim>\<open>user_id\<close>, creator or admin or not; it is permitted only to a caller other than
  the row's \<^verbatim>\<open>user_id\<close> who created the group or has a membership row in it with
  \<^verbatim>\<open>is_admin = true\<close>.
\<close>

theorem member_role_update_guard:
  "(gm_user_id old = a \<longrightarrow> \<not> update_permitted group_members_policies reads (Authenticated a) db old new)
   \<and> (update_permitted group_members_policies reads who db old new \<longrightarrow>
        (\<exists>c. who = Authenticated c \<and> c \<noteq> gm_user_id old \<and>
          ((\<exists>g \<in> set (groups db). gr_id g = gm_group_id old \<and> gr_creator_id g = Some c) \<or>
           (\<exists>x \<in> set (group_members db). gm_group_id x = gm_group_id old \<and> gm_user_id x = c \<and>
               gm_is_admin x = Some True))))"
  by (auto simp: update_permitted_def group_members_update_using_iff)

lemma set_on_delete_cascade:
  "set (on_delete_cascade fk gone rows) =
     {r \<in> set rows. \<forall>k. fk r = Some k \<longrightarrow> k \<notin> set gone}"
  by (auto simp: on_delete_cascade_def split: option.splits)

lemma set_on_delete_set_null:
  "set (on_delete_set_null fk clear gone rows) =
     (\<lambda>r. case fk r of None \<Rightarrow> r | Some k \<Rightarrow> if k \<in> set gone then clear r else r) ` set rows"
  by (simp add: on_delete_set_null_def)

lemma groups_delete_using:
  "passes_using groups_policies DELETE who db g =
     (\<exists>a. who = Authenticated a \<and>
        (gr_creator_id g = Some a \<or>
         (\<exists>x \<in> set (group_members db). gm_group_id x = gr_id g \<and> gm_user_id x = a \<and>
             gm_is_admin x = Some True)))"
  by (cases who) (auto simp: passes_using_def policy_applies_def groups_policies_def
        groups_viewable_by_members_def creators_can_create_groups_def
        admins_and_creators_can_update_groups_def admins_and_creators_can_delete_groups_def
        is_admin_member_True)

lemma groups_select_using:
  "passes_using groups_policies SELECT who db g =
     (\<exists>a. who = Authenticated a \<and>
        (gr_creator_id g = Some a \<or>
         (\<exists>x \<in> set (group_members db). gm_group_id x = gr_id g \<and> gm_user_id x = a)))"
  by (cases who) (fastforce simp: passes_using_def policy_applies_def groups_policies_def
        groups_viewable_by_members_def creators_can_create_groups_def
        admins_and_creators_can_update_groups_def admins_and_creators_can_delete_groups_def
        is_member_True)+

lemma groups_delete_iff:
  "delete_permitted groups_policies reads who db g =
     (\<exists>a. who = Authenticated a \<and>
        (gr_creator_id g = Some a \<or>
         (\<exists>x \<in> set (group_members db). gm_group_id x = gr_id g \<and> gm_user_id x = a \<and>
             gm_is_admin x = Some True)))"
  by (auto simp: delete_permitted_def groups_delete_using groups_select_using)

lemma delete_groups_eq_id_messages:
  assumes "g \<in> set (groups db)" and "delete_permitted groups_policies True who db g"
  shows "\<forall>m \<in> set (messages (delete_groups_eq_id who db (gr_id g))).
           ms_group_id m \<noteq> Some (gr_id g)"
proof -
  have "list_ex (\<lambda>x. gr_id x = gr_id g \<and> delete_permitted groups_policies True who db x) (groups db)"
    using assms by (auto simp: list_ex_iff)
  then show ?thesis
    by (auto simp: delete_groups_eq_id_def Let_def set_on_delete_cascade set_on_delete_set_null
          split: option.splits if_splits)
qed

text \<open>
  Claim C9, as amended. An UPDATE on \<^verbatim>\<open>messages\<close> by a client changes no row with a
  non-null \<^verbatim>\<open>group_id\<close>, so its read flag is never set, and changes a direct message only
  for its recipient: the only UPDATE policy of \<^verbatim>\<open>messages\<close> asks for \<^verbatim>\<open>group_id\<close> NULL
  and the caller as \<^verbatim>\<open>recipient_id\<close> of the existing row, and for the caller as
  \<^verbatim>\<open>recipient_id\<close> of the new row. The policies let the recipient of a
  direct message change any column but \<^verbatim>\<open>recipient_id\<close> and \<^verbatim>\<open>group_id\<close>, not the read
  flag alone. A DELETE on \<^verbatim>\<open>messages\<close> removes no row for any client, as the table has
  no DELETE policy. The messages of a group go all the same when a client deletes the
  group, which exactly its creator and its admins may do.
\<close>

theorem messages_update_delete_limits:
  "(ms_group_id old \<noteq> None \<longrightarrow> \<not> update_permitted messages_policies reads who db old new)
   \<and> (update_permitted messages_policies reads who db old new \<longrightarrow>
        ms_group_id old = None \<and> who = Authenticated (ms_recipient_id old) \<and>
        who = Authenticated (ms_recipient_id new))
   \<and> (ms_group_id old = None \<and> ms_group_id new = None \<and>
        ms_recipient_id new = ms_recipient_id old \<longrightarrow>
        update_permitted messages_policies reads (Authenticated (ms_recipient_id old)) db old new)
   \<and> \<not> delete_permitted messages_policies reads who db old
   \<and> filter (\<lambda>p. policy_cmd p = UPDATE) messages_policies = [users_can_mark_dms_as_read]
   \<and> filter (\<lambda>p. policy_cmd p = DELETE) messages_policies = []
   \<and> (delete_permitted groups_policies reads who db g \<longleftrightarrow>
        (\<exists>a. who = Authenticated a \<and>
           (gr_creator_id g = Some a \<or>
            (\<exists>x \<in> set (group_members db). gm_group_id x = gr_id g \<and> gm_user_id x = a \<and>
                gm_is_admin x = Some True))))
   \<and> (g \<in> set (groups db) \<and> delete_permitted groups_policies True who db g \<longrightarrow>
        (\<forall>m \<in> set (messages (delete_groups_eq_id who db (gr_id g))).
            ms_group_id m \<noteq> Some (gr_id g)))"
proof (intro conjI)
  show "ms_group_id old \<noteq> None \<longrightarrow> \<not> update_permitted messages_policies reads who db old new"
    by (simp add: update_permitted_def messages_update_using_iff)
  show "update_permitted messages_policies reads who db old new \<longrightarrow>
        ms_group_id old = None \<and> who = Authenticated (ms_recipient_id old) \<and>
        who = Authenticated (ms_recipient_id new)"
    by (auto simp: update_permitted_def messages_update_using_iff messages_update_check_iff)
  show "ms_group_id old = None \<and> ms_group_id new = None \<and>
        ms_recipient_id new = ms_recipient_id old \<longrightarrow>
        update_permitted messages_policies reads (Authenticated (ms_recipient_id old)) db old new"
    by (simp add: update_permitted_def messages_update_using_iff messages_update_check_iff
          messages_select_iff)
  show "\<not> delete_permitted messages_policies reads who db old"
    by (simp add: delete_permitted_def messages_no_delete)
  show "filter (\<lambda>p. policy_cmd p = UPDATE) messages_policies = [users_can_mark_dms_as_read]"
    by (simp add: messages_policies_def users_can_view_dms_def users_can_view_group_messages_def
        users_can_send_dms_def users_can_send_group_messages_def users_can_mark_dms_as_read_def)
  show "filter (\<lambda>p. policy_cmd p = DELETE) messages_policies = []"
    by (simp add: messages_policies_def users_can_view_dms_def users_can_view_group_messages_def
        users_can_send_dms_def users_can_send_group_messages_def users_can_mark_dms_as_read_def)
  show "delete_permitted groups_policies reads who db g \<longleftrightarrow>
        (\<exists>a. who = Authenticated a \<and>
           (gr_creator_id g = Some a \<or>
            (\<exists>x \<in> set (group_members db). gm_group_id x = gr_id g \<and> gm_user_id x = a \<and>
                gm_is_admin x = Some True)))"
    by (rule groups_delete_iff)
  show "g \<in> set (groups db) \<and> delete_permitted groups_policies True who db g \<longrightarrow>
        (\<forall>m \<in> set (messages (delete_groups_eq_id who db (gr_id g))).
            ms_group_id m \<noteq> Some (gr_id g))"
    using delete_groups_eq_id_messages by blast
qed

subsection \<open>The media bucket\<close>

lemma split_on_shape:
  "split_on d s = takeWhile (\<lambda>c. c \<noteq> d) s #
      (if d \<in> set s then split_on d (tl (dropWhile (\<lambda>c. c \<noteq> d) s)) else [])"
  by (induction s) (auto split: list.splits)

lemma split_on_not_Nil: "split_on d s \<noteq> []"
  by (subst split_on_shape) simp

lemma foldername_subscript_1:
  "sql_subscript (foldername name) (Suc 0) =
     (if CHR ''/'' \<in> set name then Some (first_path_segment name) else None)"
proof (cases "name = []")
  case True
  then show ?thesis by (simp add: foldername_def string_to_array_def sql_subscript_def)
next
  case False
  have sh: "split_on (CHR ''/'') name = takeWhile (\<lambda>c. c \<noteq> CHR ''/'') name #
      (if CHR ''/'' \<in> set name then split_on (CHR ''/'') (tl (dropWhile (\<lambda>c. c \<noteq> CHR ''/'') name)) else [])"
    by (rule split_on_shape)
  show ?thesis
  proof (cases "CHR ''/'' \<in> set name")
    case True
    then obtain w ws where "split_on (CHR ''/'') (tl (dropWhile (\<lambda>c. c \<noteq> CHR ''/'') name)) = w # ws"
      using split_on_not_Nil by (metis list.exhaust)
    with True sh False show ?thesis
      by (simp add: foldername_def string_to_array_def sql_subscript_def first_path_segment_def)
  next
    case no: False
    with sh False show ?thesis
      by (simp add: foldername_def string_to_array_def sql_subscript_def)
  qed
qed

lemma sql_scalar_Some: "sql_scalar rows = Some x \<longleftrightarrow> rows = [x]"
  by (auto simp: sql_scalar_def split: list.splits)

lemma filter_eq_singleton:
  "filter ((=) a) xs = [x] \<longleftrightarrow> x = a \<and> count_list xs a = 1"
proof -
  have all: "\<forall>y \<in> set (filter ((=) a) xs). y = a" by auto
  have len: "count_list xs a = length (filter ((=) a) xs)"
    by (rule count_list_eq_length_filter)
  show ?thesis
  proof
    assume eq: "filter ((=) a) xs = [x]"
    with all have "x = a" by simp
    with eq len show "x = a \<and> count_list xs a = 1" by simp
  next
    assume "x = a \<and> count_list xs a = 1"
    with len have x: "x = a" and l1: "length (filter ((=) a) xs) = 1" by simp_all
    from l1 obtain y where y: "filter ((=) a) xs = [y]"
      by (cases "filter ((=) a) xs") auto
    with all have "y = a" by simp
    with y x show "filter ((=) a) xs = [x]" by simp
  qed
qed

lemma whoami_scalar:
  "sql_scalar (sql_where (\<lambda>u. sql_eq (Some u) (Some a)) users) = Some x \<longleftrightarrow>
     x = a \<and> count_list users a = 1"
proof -
  have "sql_where (\<lambda>u. sql_eq (Some u) (Some a)) users = filter ((=) a) users"
    by (auto simp: sql_where_def intro: filter_cong)
  then show ?thesis by (simp add: sql_scalar_Some filter_eq_singleton)
qed

lemma storage_delete_using:
  "passes_using storage_objects_policies DELETE who db ob =
     (who \<noteq> Anon \<and> ob_bucket_id ob = ''media'' \<and>
      (\<exists>x. sql_subscript (foldername (ob_name ob)) (Suc 0) = Some x \<and>
           sql_scalar (sql_where (\<lambda>u. sql_eq (Some u) (auth_uid who)) (auth_users db)) = Some x))"
  by (auto simp: passes_using_def policy_applies_def storage_objects_policies_def
        anyone_can_view_media_def users_can_upload_def users_can_delete_own_def)

lemma storage_select_using:
  "passes_using storage_objects_policies SELECT who db ob = (ob_bucket_id ob = ''media'')"
  by (auto simp: passes_using_def policy_applies_def storage_objects_policies_def
        anyone_can_view_media_def users_can_upload_def users_can_delete_own_def)

lemma media_delete_iff:
  "delete_permitted storage_objects_policies reads who db ob \<longleftrightarrow>
     ob_bucket_id ob = ''media'' \<and>
     (\<exists>a. who = Authenticated a \<and> count_list (auth_users db) a = 1 \<and>
          CHR ''/'' \<in> set (ob_name ob) \<and> first_path_segment (ob_name ob) = a)"
proof (cases who)
  case Anon
  then show ?thesis by (simp add: delete_permitted_def storage_delete_using)
next
  case (Authenticated a)
  then show ?thesis
    by (auto simp: delete_permitted_def storage_delete_using storage_select_using
          whoami_scalar foldername_subscript_1 split: if_splits)
qed

text \<open>
  Claim C8, as amended. For an object of the \<^verbatim>\<open>media\<close> bucket and any client, a DELETE is
  permitted if and only if the caller is authenticated, the caller's identity is the id of
  exactly one row of \<^verbatim>\<open>auth.users\<close>, the key has a folder part (it contains a slash) and
  the first path segment of the key is the caller's identity string. So an anonymous
  caller, a caller with another identity, and any caller on a key with no folder part are
  refused.
\<close>

theorem media_delete_owner_folder_only:
  assumes "ob_bucket_id ob = ''media''"
  shows "(delete_permitted storage_objects_policies reads who db ob \<longleftrightarrow>
           (\<exists>a. who = Authenticated a \<and> count_list (auth_users db) a = 1 \<and>
                CHR ''/'' \<in> set (ob_name ob) \<and> first_path_segment (ob_name ob) = a))
       \<and> \<not> delete_permitted storage_objects_policies reads Anon db ob
       \<and> (first_path_segment (ob_name ob) \<noteq> b \<longrightarrow>
             \<not> delete_permitted storage_objects_policies reads (Authenticated b) db ob)
       \<and> (CHR ''/'' \<notin> set (ob_name ob) \<longrightarrow>
             \<not> delete_permitted storage_objects_policies reads who db ob)"
  using assms by (auto simp: media_delete_iff)

subsection \<open>Deleting a profile\<close>

lemma map_gr_id_set_null:
  "map gr_id (on_delete_set_null gr_creator_id (\<lambda>g. g\<lparr>gr_creator_id := None\<rparr>) gone rows) =
     map gr_id rows"
  by (induction rows) (auto simp: on_delete_set_null_def split: option.splits)

text \<open>
  Claim C7. Deleting a profile row removes every post of that user, every follow with the
  user at either end, every message the user sent or received and every membership row of
  the user; every group stays, and a group the user created is kept with
  \<^verbatim>\<open>creator_id\<close> NULL.
\<close>

theorem delete_profile_cascades:
  assumes "pid \<in> set (map pr_id (profiles db))"
  shows "pid \<notin> set (map pr_id (profiles (delete_profile pid db)))
       \<and> set (posts (delete_profile pid db)) = {p \<in> set (posts db). po_user_id p \<noteq> pid}
       \<and> set (follows (delete_profile pid db)) =
           {f \<in> set (follows db). fo_follower_id f \<noteq> pid \<and> fo_following_id f \<noteq> pid}
       \<and> (\<forall>m \<in> set (messages (delete_profile pid db)).
             ms_sender_id m \<noteq> pid \<and> ms_recipient_id m \<noteq> pid)
       \<and> set (group_members (delete_profile pid db)) =
           {gm \<in> set (group_members db). gm_user_id gm \<noteq> pid}
       \<and> map gr_id (groups (delete_profile pid db)) = map gr_id (groups db)
       \<and> (\<forall>g \<in> set (groups db). gr_creator_id g = Some pid \<longrightarrow>
             g\<lparr>gr_creator_id := None\<rparr> \<in> set (groups (delete_profile pid db)))
       \<and> (\<forall>g \<in> set (groups (delete_profile pid db)). gr_creator_id g \<noteq> Some pid)"
proof (intro conjI)
  let ?db = "delete_profile pid db"
  show "pid \<notin> set (map pr_id (profiles ?db))"
    using assms by (auto simp: delete_profile_def Let_def)
  show "set (posts ?db) = {p \<in> set (posts db). po_user_id p \<noteq> pid}"
    using assms by (auto simp: delete_profile_def Let_def set_on_delete_cascade)
  show "set (follows ?db) =
          {f \<in> set (follows db). fo_follower_id f \<noteq> pid \<and> fo_following_id f \<noteq> pid}"
    using assms by (auto simp: delete_profile_def Let_def set_on_delete_cascade)
  show "\<forall>m \<in> set (messages ?db). ms_sender_id m \<noteq> pid \<and> ms_recipient_id m \<noteq> pid"
    using assms
    by (auto simp: delete_profile_def Let_def set_on_delete_cascade set_on_delete_set_null
          split: option.splits if_splits)
  show "set (group_members ?db) = {gm \<in> set (group_members db). gm_user_id gm \<noteq> pid}"
    using assms by (auto simp: delete_profile_def Let_def set_on_delete_cascade)
  show "map gr_id (groups ?db) = map gr_id (groups db)"
    using assms by (simp add: delete_profile_def Let_def map_gr_id_set_null)
  show "\<forall>g \<in> set (groups db). gr_creator_id g = Some pid \<longrightarrow>
          g\<lparr>gr_creator_id := None\<rparr> \<in> set (groups ?db)"
    using assms by (force simp: delete_profile_def Let_def set_on_delete_set_null)
  show "\<forall>g \<in> set (groups ?db). gr_creator_id g \<noteq> Some pid"
    using assms
    by (auto simp: delete_profile_def Let_def set_on_delete_set_null split: option.splits if_splits)
qed

subsection \<open>The username change\<close>

lemma profiles_select_using: "passes_using profiles_policies SELECT who db p"
  by (simp add: passes_using_def policy_applies_def profiles_policies_def sql_true_def
        public_profiles_are_viewable_by_everyone_def)

lemma profiles_update_using:
  "passes_using profiles_policies UPDATE who db p = (who = Authenticated (pr_id p))"
  by (cases who) (auto simp: passes_using_def policy_applies_def profiles_policies_def
        public_profiles_are_viewable_by_everyone_def users_can_update_own_profile_def
        users_can_insert_own_profile_def)

lemma profiles_update_check:
  "passes_check profiles_policies UPDATE who db p = (who = Authenticated (pr_id p))"
  by (cases who) (auto simp: passes_check_def policy_applies_def profiles_policies_def
        public_profiles_are_viewable_by_everyone_def users_can_update_own_profile_def
        users_can_insert_own_profile_def)

lemma select_profiles_all: "select_profiles who db = profiles db"
  by (simp add: select_profiles_def profiles_select_using)

lemma select_id_eq_username_filter:
  "select_id_eq_username who db v = map pr_id (filter (\<lambda>p. pr_username p = v) (profiles db))"
  by (auto simp: select_id_eq_username_def select_profiles_all sql_where_def
        intro!: arg_cong [where f = "map pr_id"] filter_cong)

lemma filter_key_distinct:
  "distinct (map f xs) \<Longrightarrow> x \<in> set xs \<Longrightarrow> filter (\<lambda>y. f y = f x) xs = [x]"
proof (induction xs)
  case Nil
  then show ?case by simp
next
  case (Cons y ys)
  show ?case
  proof (cases "x = y")
    case True
    with Cons.prems have "\<forall>z \<in> set ys. f z \<noteq> f y" by (auto simp: image_iff)
    then have "filter (\<lambda>z. f z = f y) ys = []" by (simp add: filter_empty_conv)
    with True show ?thesis by simp
  next
    case False
    with Cons.prems have "x \<in> set ys" "f y \<noteq> f x" by (auto simp: image_iff)
    with Cons show ?thesis by simp
  qed
qed

lemma precheck_finds_row:
  assumes "distinct (map pr_username (profiles db))" and "r \<in> set (profiles db)"
    and "pr_username r = v"
  shows "select_id_eq_username who db v = [pr_id r]"
  using filter_key_distinct [OF assms(1,2)] assms(3)
  by (simp add: select_id_eq_username_filter)

lemma precheck_finds_nothing:
  assumes "\<forall>r \<in> set (profiles db). pr_username r \<noteq> v"
  shows "select_id_eq_username who db v = []"
  using assms by (simp add: select_id_eq_username_filter filter_empty_conv)

lemma update_username_result:
  assumes "fst (update_username_eq_id (Authenticated uid) db v uid) = None"
  shows "snd (update_username_eq_id (Authenticated uid) db v uid) =
           db\<lparr>profiles := map (\<lambda>r. if pr_id r = uid then r\<lparr>pr_username := v\<rparr> else r) (profiles db)\<rparr>"
proof -
  have touched: "(pr_id p = uid \<and> passes_using profiles_policies SELECT (Authenticated uid) db p \<and>
                  passes_using profiles_policies UPDATE (Authenticated uid) db p) = (pr_id p = uid)" for p
    by (auto simp: profiles_select_using profiles_update_using)
  show ?thesis
  proof (cases "list_ex (\<lambda>p. pr_id p = uid) (profiles db)")
    case True
    with assms show ?thesis
      by (auto simp: update_username_eq_id_def Let_def touched split: if_splits)
  next
    case False
    then have "map (\<lambda>r. if pr_id r = uid then r\<lparr>pr_username := v\<rparr> else r) (profiles db) = profiles db"
      by (induction "profiles db") (auto simp: list_ex_iff intro: map_idI)
    with False show ?thesis
      by (simp add: update_username_eq_id_def Let_def touched)
  qed
qed

text \<open>
  Claim C5. When some profile row already has the lowercase form of the submitted name,
  and the name is not blank and differs from the caller's cached username, the handler
  sets the message \<^verbatim>\<open>Username already taken.\<close> and returns: the only request sent is
  the collision query, and the database and the cached profile are unchanged. The
  usernames of the table are distinct, as the UNIQUE constraint of line 6 has it, and
  \<open>toLowerCase\<close> is any function, so the built-in with all its case tables.
\<close>

theorem username_taken_rejected:
  assumes "user_id s = Some uid" and "uid \<noteq> []" and "profile s = Some p"
    and "newUsername s \<noteq> pr_username p" and "trim (newUsername s) \<noteq> []"
    and "distinct (map pr_username (profiles db))"
    and "r \<in> set (profiles db)" and "pr_username r = toLowerCase (newUsername s)"
  shows "handleUsernameChange toLowerCase s db =
           (s\<lparr>loading := False,
               message := Some \<lparr>msg_type = error, msg_text = ''Username already taken.''\<rparr>\<rparr>,
            db, [Select_id_eq_username (toLowerCase (newUsername s))])"
proof -
  have "select_id_eq_username (Authenticated uid) db (toLowerCase (newUsername s)) = [pr_id r]"
    using assms(6,7,8) by (rule precheck_finds_row)
  then show ?thesis
    using assms(1-5)
    by (simp add: handleUsernameChange_def no_user_id_def maybeSingle_def Let_def)
qed

text \<open>
  Claim C6. When no profile row has the lowercase form of the submitted name and the UPDATE
  succeeds, the caller's row gets exactly the lowercased name, the cached profile becomes
  the old cached profile with only \<^verbatim>\<open>username\<close> set to it, and no request follows the
  UPDATE.
\<close>

theorem username_change_writes_lowercase:
  assumes "user_id s = Some uid" and "uid \<noteq> []" and "profile s = Some p"
    and "newUsername s \<noteq> pr_username p" and "trim (newUsername s) \<noteq> []"
    and "\<forall>r \<in> set (profiles db). pr_username r \<noteq> toLowerCase (newUsername s)"
    and "fst (update_username_eq_id (Authenticated uid) db (toLowerCase (newUsername s)) uid) = None"
  shows "handleUsernameChange toLowerCase s db =
           (s\<lparr>profile := Some (p\<lparr>pr_username := toLowerCase (newUsername s)\<rparr>),
               newUsername := [],
               loading := False,
               message := Some \<lparr>msg_type = success, msg_text = ''Username updated!''\<rparr>,
               timeouts := timeouts s @ [3000]\<rparr>,
            db\<lparr>profiles := map (\<lambda>r. if pr_id r = uid
                                      then r\<lparr>pr_username := toLowerCase (newUsername s)\<rparr> else r)
                                (profiles db)\<rparr>,
            [Select_id_eq_username (toLowerCase (newUsername s)),
             Update_username_eq_id (toLowerCase (newUsername s)) uid])"
proof -
  let ?v = "toLowerCase (newUsername s)"
  have none: "select_id_eq_username (Authenticated uid) db ?v = []"
    using assms(6) by (rule precheck_finds_nothing)
  obtain e d where upd: "update_username_eq_id (Authenticated uid) db ?v uid = (e, d)"
    by (cases "update_username_eq_id (Authenticated uid) db ?v uid")
  with assms(7) have e: "e = None" by simp
  from update_username_result [OF assms(7)] upd
  have d: "d = db\<lparr>profiles := map (\<lambda>r. if pr_id r = uid then r\<lparr>pr_username := ?v\<rparr> else r)
                                (profiles db)\<rparr>"
    by simp
  show ?thesis
    using assms(1-5) none upd e d
    by (simp add: handleUsernameChange_def no_user_id_def maybeSingle_def Let_def updateProfile_def)
qed

text \<open>
  Claim C10. A submitted name that is not the caller's own username but lowercases to it
  (so it differs in letter case only, and, holding a letter, is not blank) is not stopped
  by the guard, which compares for exact equality; the collision query returns the
  caller's own row, and the handler answers \<^verbatim>\<open>Username already taken.\<close> without
  sending an UPDATE.
\<close>

theorem own_name_case_change_rejected:
  assumes "user_id s = Some uid" and "uid \<noteq> []" and "profile s = Some p"
    and "toLowerCase (newUsername s) = pr_username p" and "newUsername s \<noteq> pr_username p"
    and "trim (newUsername s) \<noteq> []"
    and "distinct (map pr_username (profiles db))"
    and "r \<in> set (profiles db)" and "pr_id r = uid" and "pr_username r = pr_username p"
  shows "select_id_eq_username (Authenticated uid) db (toLowerCase (newUsername s)) = [uid]
       \<and> handleUsernameChange toLowerCase s db =
           (s\<lparr>loading := False,
               message := Some \<lparr>msg_type = error, msg_text = ''Username already taken.''\<rparr>\<rparr>,
            db, [Select_id_eq_username (toLowerCase (newUsername s))])"
proof -
  have sel: "select_id_eq_username (Authenticated uid) db (toLowerCase (newUsername s)) = [uid]"
    using precheck_finds_row [OF assms(7,8), of "toLowerCase (newUsername s)" "Authenticated uid"]
      assms(4,9,10) by simp
  with assms(1-6) show ?thesis
    by (simp add: handleUsernameChange_def no_user_id_def maybeSingle_def Let_def)
qed

subsection \<open>The properties on the example data\<close>

theorem group_message_visible_iff_member_witness:
  "example_group_message \<in> set (messages example_db)
   \<and> ms_group_id example_group_message = Some ''g1''
   \<and> example_group_message \<in> set (select_messages (Authenticated ''u2'') example_db)
   \<and> example_group_message \<notin> set (select_messages (Authenticated ''u3'') example_db)"
proof -
  have a: "example_group_message \<in> set (messages example_db)"
    by (simp add: example_db_def)
  have b: "ms_group_id example_group_message = Some ''g1''"
    by (simp add: example_group_message_def)
  show ?thesis
    using a b group_message_visible_iff_member [OF a b, of "''u2''"]
      group_message_visible_iff_member [OF a b, of "''u3''"]
    by (simp add: example_db_def example_member_alice_def example_member_bob_def)
qed

theorem direct_message_visible_iff_party_witness:
  "example_dm \<in> set (messages example_db)
   \<and> ms_group_id example_dm = None
   \<and> example_dm \<in> set (select_messages (Authenticated ''u2'') example_db)
   \<and> example_dm \<notin> set (select_messages (Authenticated ''u3'') example_db)"
proof -
  have a: "example_dm \<in> set (messages example_db)"
    by (simp add: example_db_def)
  have b: "ms_group_id example_dm = None"
    by (simp add: example_dm_def)
  show ?thesis
    using a b direct_message_visible_iff_party [OF a b, of "''u2''"]
      direct_message_visible_iff_party [OF a b, of "''u3''"]
    by (simp add: example_dm_def)
qed

theorem group_members_select_self_only_witness:
  "filter (passes_using group_members_policies SELECT (Authenticated ''u2'') example_db)
     (group_members example_db) = [example_member_bob]
   \<and> example_member_alice \<in> set (group_members example_db)
   \<and> gm_user_id example_member_alice \<noteq> ''u2''"
  using group_members_select_self_only [of "''u2''" example_db]
  by (simp add: example_db_def example_member_alice_def example_member_bob_def)

lemma group_members_update_check: "passes_check group_members_policies UPDATE who db gm"
  by (simp add: passes_check_def policy_applies_def group_members_policies_def sql_true_def
        members_viewable_by_self_def admins_and_creators_can_insert_members_def
        admins_and_creators_can_update_member_roles_def
        admins_creators_and_member_can_delete_members_def)

theorem member_role_update_guard_witness:
  "gm_user_id example_member_alice = ''u1''
   \<and> \<not> update_permitted group_members_policies False (Authenticated ''u1'') example_db
          example_member_alice (example_member_alice\<lparr>gm_is_admin := Some False\<rparr>)
   \<and> update_permitted group_members_policies False (Authenticated ''u1'') example_db
          example_member_bob (example_member_bob\<lparr>gm_is_admin := Some True\<rparr>)
   \<and> (\<exists>g \<in> set (groups example_db). gr_id g = gm_group_id example_member_bob \<and>
          gr_creator_id g = Some ''u1'')"
proof -
  have a: "gm_user_id example_member_alice = ''u1''"
    by (simp add: example_member_alice_def)
  have b: "update_permitted group_members_policies False (Authenticated ''u1'') example_db
          example_member_bob (example_member_bob\<lparr>gm_is_admin := Some True\<rparr>)"
    by (simp add: update_permitted_def group_members_update_using_iff group_members_update_check
          example_db_def example_member_bob_def example_group_def)
  show ?thesis
    using a b
      member_role_update_guard [of example_member_alice "''u1''" False example_db
        "example_member_alice\<lparr>gm_is_admin := Some False\<rparr>"]
    by (simp add: example_db_def example_member_bob_def example_group_def)
qed

theorem messages_update_delete_limits_witness:
  "ms_group_id example_group_message \<noteq> None
   \<and> \<not> update_permitted messages_policies True (Authenticated ''u1'') example_db
          example_group_message (example_group_message\<lparr>ms_read := Some True\<rparr>)
   \<and> update_permitted messages_policies True (Authenticated ''u2'') example_db
          example_dm (example_dm\<lparr>ms_read := Some True\<rparr>)
   \<and> ms_group_id example_dm = None \<and> ms_recipient_id example_dm = ''u2''
   \<and> \<not> delete_permitted messages_policies True (Authenticated ''u1'') example_db example_dm
   \<and> example_group \<in> set (groups example_db)
   \<and> delete_permitted groups_policies True (Authenticated ''u1'') example_db example_group
   \<and> example_group_message \<notin> set (messages (delete_groups_eq_id (Authenticated ''u1'')
          example_db (gr_id example_group)))"
proof -
  have a: "ms_group_id example_group_message \<noteq> None"
    by (simp add: example_group_message_def)
  have a': "ms_group_id example_dm = None \<and> ms_group_id (example_dm\<lparr>ms_read := Some True\<rparr>) = None
      \<and> ms_recipient_id (example_dm\<lparr>ms_read := Some True\<rparr>) = ms_recipient_id example_dm"
    by (simp add: example_dm_def)
  have r: "ms_recipient_id example_dm = ''u2''"
    by (simp add: example_dm_def)
  have b: "update_permitted messages_policies True (Authenticated ''u2'') example_db
          example_dm (example_dm\<lparr>ms_read := Some True\<rparr>)"
    using a' r messages_update_delete_limits [of example_dm True "Authenticated ''u2''" example_db
        "example_dm\<lparr>ms_read := Some True\<rparr>"]
    by metis
  have c: "\<not> update_permitted messages_policies True (Authenticated ''u1'') example_db
          example_group_message (example_group_message\<lparr>ms_read := Some True\<rparr>)"
    using a messages_update_delete_limits [of example_group_message True "Authenticated ''u1''"
        example_db "example_group_message\<lparr>ms_read := Some True\<rparr>"]
    by blast
  have e: "\<not> delete_permitted messages_policies True (Authenticated ''u1'') example_db example_dm"
    using messages_update_delete_limits [of example_dm True "Authenticated ''u1''" example_db example_dm]
    by blast
  have f: "example_group \<in> set (groups example_db)"
    by (simp add: example_db_def)
  have g: "gr_creator_id example_group = Some ''u1''"
    by (simp add: example_group_def)
  note t = messages_update_delete_limits [of example_dm True "Authenticated ''u1''" example_db
      example_dm example_group]
  have h: "delete_permitted groups_policies True (Authenticated ''u1'') example_db example_group"
    using g t by blast
  have i: "\<forall>m \<in> set (messages (delete_groups_eq_id (Authenticated ''u1'') example_db
          (gr_id example_group))). ms_group_id m \<noteq> Some (gr_id example_group)"
    using f h t by blast
  have j: "ms_group_id example_group_message = Some (gr_id example_group)"
    by (simp add: example_group_message_def example_group_def)
  have k: "example_group_message \<notin> set (messages (delete_groups_eq_id (Authenticated ''u1'')
          example_db (gr_id example_group)))"
    using i j by blast
  from a a' r b c e f h k show ?thesis by simp
qed

text \<open>
  The recipient of a direct message may change more than the read flag: the UPDATE policy
  admits a new row with another \<^verbatim>\<open>content\<close>. And a group message is deleted by a client:
  alice, who created the group, deletes it, and the message goes with it.
\<close>

theorem dm_recipient_rewrites_content_counterexample:
  "update_permitted messages_policies True (Authenticated ''u2'') example_db
     example_dm (example_dm\<lparr>ms_content := ''edited''\<rparr>)
   \<and> ms_content (example_dm\<lparr>ms_content := ''edited''\<rparr>) \<noteq> ms_content example_dm
   \<and> example_group_message \<in> set (messages example_db)
   \<and> ms_group_id example_group_message = Some ''g1''
   \<and> example_group_message \<notin> set (messages (delete_groups_eq_id (Authenticated ''u1'')
          example_db ''g1''))"
proof -
  have a: "update_permitted messages_policies True (Authenticated ''u2'') example_db
     example_dm (example_dm\<lparr>ms_content := ''edited''\<rparr>)"
    by (simp add: update_permitted_def messages_update_using_iff messages_update_check_iff
        messages_select_iff example_dm_def)
  have b: "ms_content (example_dm\<lparr>ms_content := ''edited''\<rparr>) \<noteq> ms_content example_dm"
    by (simp add: example_dm_def)
  have c: "example_group_message \<in> set (messages example_db)"
    by (simp add: example_db_def)
  have d: "ms_group_id example_group_message = Some ''g1''"
    by (simp add: example_group_message_def)
  have e: "example_group \<in> set (groups example_db)"
    by (simp add: example_db_def)
  have f: "delete_permitted groups_policies True (Authenticated ''u1'') example_db example_group"
    by (simp add: groups_delete_iff example_group_def)
  have g: "gr_id example_group = ''g1''"
    by (simp add: example_group_def)
  from delete_groups_eq_id_messages [OF e f] d g
  have h: "example_group_message \<notin> set (messages (delete_groups_eq_id (Authenticated ''u1'')
          example_db ''g1''))"
    by auto
  from a b c d h show ?thesis by simp
qed

theorem media_delete_owner_folder_only_witness:
  "ob_bucket_id \<lparr>ob_bucket_id = ''media'', ob_name = ''u1/cat.png''\<rparr> = ''media''
   \<and> count_list (auth_users example_db) ''u1'' = 1
   \<and> delete_permitted storage_objects_policies True (Authenticated ''u1'') example_db
        \<lparr>ob_bucket_id = ''media'', ob_name = ''u1/cat.png''\<rparr>
   \<and> \<not> delete_permitted storage_objects_policies True (Authenticated ''u2'') example_db
        \<lparr>ob_bucket_id = ''media'', ob_name = ''u1/cat.png''\<rparr>"
proof -
  have a: "ob_bucket_id \<lparr>ob_bucket_id = ''media'', ob_name = ''u1/cat.png''\<rparr> = ''media''"
    by simp
  have c: "count_list (auth_users example_db) ''u1'' = 1" by (simp add: example_db_def)
  show ?thesis
    using a c media_delete_owner_folder_only [OF a, of True "Authenticated ''u1''" example_db "''u2''"]
    by (simp add: first_path_segment_def)
qed

text \<open>
  An object stored at the top level of the bucket, with the caller's identity as its whole
  key, has that identity as first path segment, and the caller cannot delete it. Nor can
  an authenticated caller with no row in \<^verbatim>\<open>auth.users\<close> delete an object in the folder
  of that identity.
\<close>

theorem media_delete_first_segment_counterexample:
  "ob_bucket_id \<lparr>ob_bucket_id = ''media'', ob_name = ''u1''\<rparr> = ''media''
   \<and> first_path_segment (ob_name \<lparr>ob_bucket_id = ''media'', ob_name = ''u1''\<rparr>) = ''u1''
   \<and> \<not> delete_permitted storage_objects_policies True (Authenticated ''u1'') example_db
          \<lparr>ob_bucket_id = ''media'', ob_name = ''u1''\<rparr>
   \<and> first_path_segment (ob_name \<lparr>ob_bucket_id = ''media'', ob_name = ''u9/cat.png''\<rparr>) = ''u9''
   \<and> \<not> delete_permitted storage_objects_policies True (Authenticated ''u9'') example_db
          \<lparr>ob_bucket_id = ''media'', ob_name = ''u9/cat.png''\<rparr>"
  by (simp add: first_path_segment_def media_delete_iff example_db_def)

lemma lower_Alice: "ascii_toLowerCase (utf16 ''Alice'') = utf16 ''alice''"
  by (simp add: ascii_toLowerCase_def utf16_def)

lemma lower_Bobby: "ascii_toLowerCase (utf16 ''Bobby'') = utf16 ''bobby''"
  by (simp add: ascii_toLowerCase_def utf16_def)

lemma lower_Bob: "ascii_toLowerCase (utf16 ''Bob'') = utf16 ''bob''"
  by (simp add: ascii_toLowerCase_def utf16_def)

lemma example_usernames_distinct: "distinct (map pr_username (profiles example_db))"
  by (simp add: example_db_def example_profile_def utf16_def)

theorem username_taken_rejected_witness:
  "distinct (map pr_username (profiles example_db))
   \<and> example_profile ''u1'' ''alice'' \<in> set (profiles example_db)
   \<and> trim (utf16 ''Alice'') \<noteq> []
   \<and> handleUsernameChange ascii_toLowerCase (example_settings ''Alice'') example_db =
       ((example_settings ''Alice'')
          \<lparr>message := Some \<lparr>msg_type = error, msg_text = ''Username already taken.''\<rparr>\<rparr>,
        example_db, [Select_id_eq_username (utf16 ''alice'')])"
proof -
  have a: "user_id (example_settings ''Alice'') = Some ''u2''"
    and b: "''u2'' \<noteq> []"
    and c: "profile (example_settings ''Alice'') = Some (example_profile ''u2'' ''bob'')"
    and d: "newUsername (example_settings ''Alice'') \<noteq> pr_username (example_profile ''u2'' ''bob'')"
    by (simp_all add: example_settings_def example_profile_def utf16_def)
  have l: "newUsername (example_settings ''Alice'') = utf16 ''Alice''"
    and m: "(example_settings ''Alice'')\<lparr>loading := False\<rparr> = example_settings ''Alice''"
    by (simp_all add: example_settings_def)
  have e: "trim (newUsername (example_settings ''Alice'')) \<noteq> []"
    by (simp add: l utf16_def trim_def is_white_space_def)
  have g: "example_profile ''u1'' ''alice'' \<in> set (profiles example_db)"
    by (simp add: example_db_def)
  have h: "pr_username (example_profile ''u1'' ''alice'') =
             ascii_toLowerCase (newUsername (example_settings ''Alice''))"
    by (simp add: l lower_Alice example_profile_def)
  show ?thesis
    using e g example_usernames_distinct
      username_taken_rejected [where toLowerCase = ascii_toLowerCase, OF a b c d e example_usernames_distinct g h]
    by (simp add: l m lower_Alice)
qed

theorem username_change_writes_lowercase_witness:
  "utf16 ''bobby'' \<notin> set (map pr_username (profiles example_db))
   \<and> fst (update_username_eq_id (Authenticated ''u2'') example_db (utf16 ''bobby'') ''u2'') = None
   \<and> handleUsernameChange ascii_toLowerCase (example_settings ''Bobby'') example_db =
       ((example_settings ''Bobby'')
          \<lparr>profile := Some ((example_profile ''u2'' ''bob'')\<lparr>pr_username := utf16 ''bobby''\<rparr>),
           newUsername := [],
           loading := False,
           message := Some \<lparr>msg_type = success, msg_text = ''Username updated!''\<rparr>,
           timeouts := [3000]\<rparr>,
        example_db\<lparr>profiles := [example_profile ''u1'' ''alice'',
                                (example_profile ''u2'' ''bob'')\<lparr>pr_username := utf16 ''bobby''\<rparr>,
                                example_profile ''u3'' ''carol'']\<rparr>,
        [Select_id_eq_username (utf16 ''bobby''), Update_username_eq_id (utf16 ''bobby'') ''u2''])"
proof -
  have a: "user_id (example_settings ''Bobby'') = Some ''u2''"
    and b: "''u2'' \<noteq> []"
    and c: "profile (example_settings ''Bobby'') = Some (example_profile ''u2'' ''bob'')"
    and d: "newUsername (example_settings ''Bobby'') \<noteq> pr_username (example_profile ''u2'' ''bob'')"
    by (simp_all add: example_settings_def example_profile_def utf16_def)
  have l: "newUsername (example_settings ''Bobby'') = utf16 ''Bobby''"
    and n: "timeouts (example_settings ''Bobby'') = []"
    by (simp_all add: example_settings_def)
  have e: "trim (newUsername (example_settings ''Bobby'')) \<noteq> []"
    by (simp add: l utf16_def trim_def is_white_space_def)
  have f: "\<forall>r \<in> set (profiles example_db). pr_username r \<noteq> utf16 ''bobby''"
    by (simp add: example_db_def example_profile_def utf16_def)
  have g: "fst (update_username_eq_id (Authenticated ''u2'') example_db (utf16 ''bobby'') ''u2'') = None"
    by (simp add: update_username_eq_id_def Let_def profiles_select_using profiles_update_using
          profiles_update_check example_db_def example_profile_def utf16_def)
  have f': "\<forall>r \<in> set (profiles example_db).
              pr_username r \<noteq> ascii_toLowerCase (newUsername (example_settings ''Bobby''))"
    using f by (simp add: l lower_Bobby)
  have g': "fst (update_username_eq_id (Authenticated ''u2'') example_db
              (ascii_toLowerCase (newUsername (example_settings ''Bobby''))) ''u2'') = None"
    using g by (simp add: l lower_Bobby)
  have q: "map (\<lambda>r. if pr_id r = ''u2'' then r\<lparr>pr_username := utf16 ''bobby''\<rparr> else r)
             (profiles example_db) =
             [example_profile ''u1'' ''alice'',
              (example_profile ''u2'' ''bob'')\<lparr>pr_username := utf16 ''bobby''\<rparr>,
              example_profile ''u3'' ''carol'']"
    by (simp add: example_db_def example_profile_def)
  have f'': "utf16 ''bobby'' \<notin> set (map pr_username (profiles example_db))"
    using f by auto
  show ?thesis
    using f'' g username_change_writes_lowercase [where toLowerCase = ascii_toLowerCase, OF a b c d e f' g', unfolded l lower_Bobby n q]
    by simp
qed

theorem own_name_case_change_rejected_witness:
  "ascii_toLowerCase (utf16 ''Bob'') = utf16 ''bob'' \<and> utf16 ''Bob'' \<noteq> utf16 ''bob''
   \<and> trim (utf16 ''Bob'') \<noteq> []
   \<and> example_profile ''u2'' ''bob'' \<in> set (profiles example_db)
   \<and> select_id_eq_username (Authenticated ''u2'') example_db (utf16 ''bob'') = [''u2'']
   \<and> handleUsernameChange ascii_toLowerCase (example_settings ''Bob'') example_db =
       ((example_settings ''Bob'')
          \<lparr>message := Some \<lparr>msg_type = error, msg_text = ''Username already taken.''\<rparr>\<rparr>,
        example_db, [Select_id_eq_username (utf16 ''bob'')])"
proof -
  have l: "newUsername (example_settings ''Bob'') = utf16 ''Bob''"
    and m: "(example_settings ''Bob'')\<lparr>loading := False\<rparr> = example_settings ''Bob''"
    by (simp_all add: example_settings_def)
  have a: "user_id (example_settings ''Bob'') = Some ''u2''"
    and b: "''u2'' \<noteq> []"
    and c: "profile (example_settings ''Bob'') = Some (example_profile ''u2'' ''bob'')"
    by (simp_all add: example_settings_def)
  have d: "ascii_toLowerCase (newUsername (example_settings ''Bob'')) =
             pr_username (example_profile ''u2'' ''bob'')"
    by (simp add: l lower_Bob example_profile_def)
  have e: "newUsername (example_settings ''Bob'') \<noteq> pr_username (example_profile ''u2'' ''bob'')"
    by (simp add: l example_profile_def utf16_def)
  have e': "utf16 ''Bob'' \<noteq> utf16 ''bob''"
    by (simp add: utf16_def)
  have t: "trim (newUsername (example_settings ''Bob'')) \<noteq> []"
    by (simp add: l utf16_def trim_def is_white_space_def)
  have g: "example_profile ''u2'' ''bob'' \<in> set (profiles example_db)"
    by (simp add: example_db_def)
  have h: "pr_id (example_profile ''u2'' ''bob'') = ''u2''"
    and i: "pr_username (example_profile ''u2'' ''bob'') = pr_username (example_profile ''u2'' ''bob'')"
    by (simp_all add: example_profile_def)
  show ?thesis
    using g e' t own_name_case_change_rejected [where toLowerCase = ascii_toLowerCase, OF a b c d e t example_usernames_distinct g h i]
    by (simp add: l m lower_Bob)
qed

theorem delete_profile_cascades_witness:
  "''u1'' \<in> set (map pr_id (profiles example_db))
   \<and> set (posts (delete_profile ''u1'' example_db)) = {example_post ''p2'' ''u2''}
   \<and> example_group \<in> set (groups example_db) \<and> gr_creator_id example_group = Some ''u1''
   \<and> example_group\<lparr>gr_creator_id := None\<rparr> \<in> set (groups (delete_profile ''u1'' example_db))
   \<and> set (group_members (delete_profile ''u1'' example_db)) = {example_member_bob}"
proof -
  have a: "''u1'' \<in> set (map pr_id (profiles example_db))"
    by (simp add: example_db_def example_profile_def)
  have b: "example_group \<in> set (groups example_db)" "gr_creator_id example_group = Some ''u1''"
    by (simp_all add: example_db_def example_group_def)
  have c: "{p \<in> set (posts example_db). po_user_id p \<noteq> ''u1''} = {example_post ''p2'' ''u2''}"
    by (auto simp: example_db_def example_post_def)
  have d: "{gm \<in> set (group_members example_db). gm_user_id gm \<noteq> ''u1''} = {example_member_bob}"
    by (auto simp: example_db_def example_member_alice_def example_member_bob_def)
  show ?thesis
    using a b c d delete_profile_cascades [OF a] by simp
qed

end
